theory Spec2Isabelle
  imports Main
begin

section \<open>Decimal text of an integer\<close>

text \<open>
  The header builds every payload with \<^verbatim>\<open>std::to_string(int)\<close>, which prints the
  decimal digits of its argument, most significant first, with a leading minus sign
  for a negative argument. The C++ type is a 32-bit \<^verbatim>\<open>int\<close>; the header only
  compares and prints such values (its single addition, \<^verbatim>\<open>code + 10\<close>, is on an
  enumerator of at most 97), so they are modelled by \<^typ>\<open>int\<close>.
\<close>

definition digit_char :: "nat \<Rightarrow> char" where
  "digit_char d = char_of (48 + d)"

fun digits_of :: "nat \<Rightarrow> string" where
  "digits_of n = (if n < 10 then [digit_char n]
                  else digits_of (n div 10) @ [digit_char (n mod 10)])"

declare digits_of.simps [simp del]

definition to_string :: "int \<Rightarrow> string" where
  "to_string i = (if i < 0 then CHR ''-'' # digits_of (nat (- i)) else digits_of (nat i))"

text \<open>
  Reading a payload as a number: the value of a string of decimal digits. It is the
  reading a terminal gives to one SGR parameter, and serves to state what a payload
  denotes.
\<close>

definition digit_val :: "char \<Rightarrow> nat" where
  "digit_val c = of_char c - 48"

definition decimal_value :: "string \<Rightarrow> nat" where
  "decimal_value s = foldl (\<lambda>a c. 10 * a + digit_val c) 0 s"

section \<open>Style tokens: class sgr\<close>

text \<open>An \<^verbatim>\<open>sgr\<close> wraps one string, the parameter list of the escape sequence.\<close>

record sgr =
  str :: string

definition escape :: string where
  "escape = [CHR 0x1B, CHR ''['']"

definition terminator :: string where
  "terminator = ''m''"

definition toString :: "sgr \<Rightarrow> string" where
  "toString c = escape @ str c @ terminator"

text \<open>\<^verbatim>\<open>operator+\<close> and \<^verbatim>\<open>operator,\<close> of class sgr.\<close>

definition sgr_plus :: "sgr \<Rightarrow> sgr \<Rightarrow> sgr" where
  "sgr_plus left right = \<lparr>str = str left @ '';'' @ str right\<rparr>"

definition sgr_comma :: "sgr \<Rightarrow> sgr \<Rightarrow> sgr" where
  "sgr_comma left right = sgr_plus left right"

datatype SGRCode = RESET | BOLD | FAINT | ITALIC | UNDERLINE | BLINK_SLOW | BLINK_FAST
  | REVERSE | CONCEAL | STRIKE | FRAME | ENCIRCLE | OVERLINE

fun SGRCode_int :: "SGRCode \<Rightarrow> int" where
  "SGRCode_int RESET = 0"
| "SGRCode_int BOLD = 1"
| "SGRCode_int FAINT = 2"
| "SGRCode_int ITALIC = 3"
| "SGRCode_int UNDERLINE = 4"
| "SGRCode_int BLINK_SLOW = 5"
| "SGRCode_int BLINK_FAST = 6"
| "SGRCode_int REVERSE = 7"
| "SGRCode_int CONCEAL = 8"
| "SGRCode_int STRIKE = 9"
| "SGRCode_int FRAME = 51"
| "SGRCode_int ENCIRCLE = 52"
| "SGRCode_int OVERLINE = 53"

text \<open>The public constructor \<^verbatim>\<open>sgr(const SGRCode code)\<close>.\<close>

definition sgr_of_code :: "SGRCode \<Rightarrow> sgr" where
  "sgr_of_code code = \<lparr>str = to_string (SGRCode_int code)\<rparr>"

definition reset :: sgr where
  "reset = sgr_of_code RESET"

definition underline :: sgr where
  "underline = sgr_of_code UNDERLINE"

definition bold :: sgr where
  "bold = sgr_of_code BOLD"

section \<open>Colour tokens: class color\<close>

datatype ANSIColor = BLACK | RED | GREEN | YELLOW | BLUE | MAGENTA | CYAN | WHITE
  | BRIGHT_BLACK | BRIGHT_RED | BRIGHT_GREEN | BRIGHT_YELLOW
  | BRIGHT_BLUE | BRIGHT_MAGENTA | BRIGHT_CYAN | BRIGHT_WHITE

fun ANSIColor_int :: "ANSIColor \<Rightarrow> int" where
  "ANSIColor_int BLACK = 30"
| "ANSIColor_int RED = 31"
| "ANSIColor_int GREEN = 32"
| "ANSIColor_int YELLOW = 33"
| "ANSIColor_int BLUE = 34"
| "ANSIColor_int MAGENTA = 35"
| "ANSIColor_int CYAN = 36"
| "ANSIColor_int WHITE = 37"
| "ANSIColor_int BRIGHT_BLACK = 90"
| "ANSIColor_int BRIGHT_RED = 91"
| "ANSIColor_int BRIGHT_GREEN = 92"
| "ANSIColor_int BRIGHT_YELLOW = 93"
| "ANSIColor_int BRIGHT_BLUE = 94"
| "ANSIColor_int BRIGHT_MAGENTA = 95"
| "ANSIColor_int BRIGHT_CYAN = 96"
| "ANSIColor_int BRIGHT_WHITE = 97"

text \<open>The exception a 24-bit colour constructor throws.\<close>

datatype error = invalid_color_component

definition verifyColorComponent :: "int \<Rightarrow> bool" where
  "verifyColorComponent c = (c \<le> 255 \<and> c \<ge> 0)"

text \<open>The private constructor \<^verbatim>\<open>color(const ANSIColor code, bool foreground)\<close>.\<close>

definition color_ansi :: "ANSIColor \<Rightarrow> bool \<Rightarrow> sgr" where
  "color_ansi code foreground =
     \<lparr>str = to_string (if foreground then ANSIColor_int code else ANSIColor_int code + 10)\<rparr>"

text \<open>
  The private constructor \<^verbatim>\<open>color(const int r, const int g, const int b, bool foreground)\<close>:
  the base \<^verbatim>\<open>sgr\<close> is initialised with the payload, then the body checks the components
  and throws; a constructor that throws leaves no object behind.
\<close>

definition color_rgb :: "int \<Rightarrow> int \<Rightarrow> int \<Rightarrow> bool \<Rightarrow> error + sgr" where
  "color_rgb r g b foreground =
     (let base = \<lparr>str = (if foreground then ''38;2;'' else ''48;2;'') @ to_string r @ '';'' @
                        to_string g @ '';'' @ to_string b\<rparr>
      in if \<not> (verifyColorComponent r \<and> verifyColorComponent g \<and> verifyColorComponent b)
         then Inl invalid_color_component
         else Inr base)"

text \<open>The four static factories \<^verbatim>\<open>color::fg\<close> and \<^verbatim>\<open>color::bg\<close>.\<close>

definition color_fg :: "ANSIColor \<Rightarrow> sgr" where
  "color_fg code = color_ansi code True"

definition color_fg_rgb :: "int \<Rightarrow> int \<Rightarrow> int \<Rightarrow> error + sgr" where
  "color_fg_rgb r g b = color_rgb r g b True"

definition color_bg :: "ANSIColor \<Rightarrow> sgr" where
  "color_bg code = color_ansi code False"

definition color_bg_rgb :: "int \<Rightarrow> int \<Rightarrow> int \<Rightarrow> error + sgr" where
  "color_bg_rgb r g b = color_rgb r g b False"

subsection \<open>The earliest revision: classes SGR, FGColor, BGColor\<close>

text \<open>
  In the earliest header an \<^verbatim>\<open>SGR\<close> stores the whole escape sequence:
  \<^verbatim>\<open>SGR(const std::string ansiString) : str(escape + ansiString + "m")\<close>, and the colour
  classes forward the decimal text of the code.
\<close>

record SGR =
  SGR_str :: string

definition SGR_of_string :: "string \<Rightarrow> SGR" where
  "SGR_of_string ansiString = \<lparr>SGR_str = escape @ ansiString @ ''m''\<rparr>"

definition FGColor :: "ANSIColor \<Rightarrow> SGR" where
  "FGColor code = SGR_of_string (to_string (ANSIColor_int code))"

definition BGColor :: "ANSIColor \<Rightarrow> SGR" where
  "BGColor code = SGR_of_string (to_string (ANSIColor_int code + 10))"

section \<open>Output sinks\<close>

text \<open>
  A \<^verbatim>\<open>std::ostream\<close> writes to the stream buffer it was constructed on; several streams may
  share one buffer. A buffer is named by its address, and the state of the sinks gives,
  for each buffer, the bytes it has received so far. Every insertion used by the header
  appends bytes to a buffer; write failures of the sink are not modelled.
\<close>

type_synonym streambuf = nat

type_synonym sinks = "streambuf \<Rightarrow> string"

definition no_output :: sinks where
  "no_output = (\<lambda>b. [])"

definition sputn :: "streambuf \<Rightarrow> string \<Rightarrow> sinks \<Rightarrow> sinks" where
  "sputn b s h = h(b := h b @ s)"

section \<open>The session: class \<^verbatim>\<open>sgr_ostream_wrapper\<close>\<close>

record sgr_ostream_wrapper =
  stream :: streambuf
  shouldReset :: bool

text \<open>\<^verbatim>\<open>sgr_ostream_wrapper(std::ostream & stream)\<close>; the argument is the stream's buffer.\<close>

definition wrapper_of_ostream :: "streambuf \<Rightarrow> sgr_ostream_wrapper" where
  "wrapper_of_ostream out = \<lparr>stream = out, shouldReset = True\<rparr>"

text \<open>
  \<^verbatim>\<open>sgr_ostream_wrapper(sgr_ostream_wrapper && other)\<close>: the result is the pair of the
  wrapper constructed and the wrapper moved from, as the constructor leaves it.
\<close>

definition wrapper_move :: "sgr_ostream_wrapper \<Rightarrow> sgr_ostream_wrapper \<times> sgr_ostream_wrapper" where
  "wrapper_move other =
     (\<lparr>stream = stream other, shouldReset = shouldReset other\<rparr>, other\<lparr>shouldReset := False\<rparr>)"

text \<open>
  The member template \<^verbatim>\<open>operator<<(const T & t)\<close>: \<^verbatim>\<open>stream << t; return *this;\<close>. The
  argument \<open>t\<close> is the text the standard inserter prints for the value (for a string or
  a character array, its characters; the formatting flags of the inner stream are not
  modelled). The wrapper returned is \<^verbatim>\<open>*this\<close>: the model returns the wrapper it was
  given, and no constructor runs.
\<close>

definition insert_T :: "sgr_ostream_wrapper \<Rightarrow> string \<Rightarrow> sinks \<Rightarrow> sgr_ostream_wrapper \<times> sinks" where
  "insert_T this t h = (this, sputn (stream this) t h)"

text \<open>The specialisation \<^verbatim>\<open>operator<<(const sgr & c)\<close>: \<^verbatim>\<open>stream << c.toString(); return *this;\<close>.\<close>

definition insert_sgr :: "sgr_ostream_wrapper \<Rightarrow> sgr \<Rightarrow> sinks \<Rightarrow> sgr_ostream_wrapper \<times> sinks" where
  "insert_sgr this c h = (this, sputn (stream this) (toString c) h)"

definition kill :: "sgr_ostream_wrapper \<Rightarrow> sinks \<Rightarrow> sgr_ostream_wrapper \<times> sinks" where
  "kill this h =
     (if shouldReset this
      then insert_T (this\<lparr>shouldReset := False\<rparr>) (toString reset) h
      else (this, h))"

text \<open>The destructor calls \<^verbatim>\<open>kill\<close>; the object is gone afterwards, the sinks remain.\<close>

definition wrapper_dtor :: "sgr_ostream_wrapper \<Rightarrow> sinks \<Rightarrow> sinks" where
  "wrapper_dtor this h = snd (kill this h)"

text \<open>
  The free function \<^verbatim>\<open>operator<<(std::ostream & out, const sgr & c)\<close>: a local wrapper is
  constructed on the buffer of \<open>out\<close>, the token is inserted, the return value is
  move-constructed from the local, and the local is destroyed on return.
\<close>

definition ostream_insert_sgr :: "streambuf \<Rightarrow> sgr \<Rightarrow> sinks \<Rightarrow> sgr_ostream_wrapper \<times> sinks" where
  "ostream_insert_sgr out c h =
     (let wrapper = wrapper_of_ostream out;
          (wrapper, h) = insert_sgr wrapper c h;
          (result, wrapper) = wrapper_move wrapper;
          h = wrapper_dtor wrapper h
      in (result, h))"

text \<open>\<^verbatim>\<open>kill\<close> called \<open>n\<close> times in a row on one session.\<close>

fun kill_times :: "nat \<Rightarrow> sgr_ostream_wrapper \<Rightarrow> sinks \<Rightarrow> sgr_ostream_wrapper \<times> sinks" where
  "kill_times 0 this h = (this, h)"
| "kill_times (Suc n) this h = (let (this, h) = kill this h in kill_times n this h)"

subsection \<open>Statements that use a session\<close>

text \<open>
  The expression statement \<^verbatim>\<open>out << c;\<close>: the temporary wrapper lives to the end of the
  statement and is destroyed there.
\<close>

definition stmt_sgr :: "streambuf \<Rightarrow> sgr \<Rightarrow> sinks \<Rightarrow> sinks" where
  "stmt_sgr out c h = (let (w, h) = ostream_insert_sgr out c h in wrapper_dtor w h)"

text \<open>The statement \<^verbatim>\<open>out << c << t;\<close> for a token \<open>c\<close> and a text \<open>t\<close>.\<close>

definition stmt_sgr_text :: "streambuf \<Rightarrow> sgr \<Rightarrow> string \<Rightarrow> sinks \<Rightarrow> sinks" where
  "stmt_sgr_text out c t h =
     (let (w, h) = ostream_insert_sgr out c h;
          (w, h) = insert_T w t h
      in wrapper_dtor w h)"

text \<open>
  The test program \<^verbatim>\<open>test_simple\<close>: a fresh \<^verbatim>\<open>std::ostringstream\<close> (its buffer is empty),
  the statement \<^verbatim>\<open>stream << bold << "Bold string";\<close>, then \<^verbatim>\<open>stream.str()\<close>.
\<close>

definition test_simple_target :: string where
  "test_simple_target = stmt_sgr_text 0 bold ''Bold string'' no_output 0"

text \<open>The statement \<^verbatim>\<open>out << a << b;\<close> for two tokens.\<close>

definition stmt_sgr_sgr :: "streambuf \<Rightarrow> sgr \<Rightarrow> sgr \<Rightarrow> sinks \<Rightarrow> sinks" where
  "stmt_sgr_sgr out a b h =
     (let (w, h) = ostream_insert_sgr out a h;
          (w, h) = insert_sgr w b h
      in wrapper_dtor w h)"

subsection \<open>Chains of writes and hand-offs\<close>

text \<open>
  A session is used through a sequence of steps: a text is inserted, a token is
  inserted, or the session is handed off, that is, a new wrapper is move-constructed
  from the current one (as the return statement of the free inserter does) and the
  chain goes on with the new wrapper. A wrapper moved from stays alive until it is
  destroyed by a later step (as the local of the free inserter is, on return) or until
  the chain ends; the wrappers still alive are then destroyed, the latest first, as
  C++ destroys temporaries.
\<close>

datatype chain_op = Handoff | DestroySource | Put string | PutSgr sgr

fun chain :: "chain_op list \<Rightarrow> sgr_ostream_wrapper \<Rightarrow> sgr_ostream_wrapper list \<Rightarrow> sinks \<Rightarrow>
    sgr_ostream_wrapper \<times> sgr_ostream_wrapper list \<times> sinks" where
  "chain [] w olds h = (w, olds, h)"
| "chain (Handoff # ops) w olds h =
     (let (new, old) = wrapper_move w in chain ops new (old # olds) h)"
| "chain (DestroySource # ops) w [] h = chain ops w [] h"
| "chain (DestroySource # ops) w (old # olds) h = chain ops w olds (wrapper_dtor old h)"
| "chain (Put t # ops) w olds h =
     (let (w, h) = insert_T w t h in chain ops w olds h)"
| "chain (PutSgr c # ops) w olds h =
     (let (w, h) = insert_sgr w c h in chain ops w olds h)"

fun destroy_all :: "sgr_ostream_wrapper list \<Rightarrow> sinks \<Rightarrow> sinks" where
  "destroy_all [] h = h"
| "destroy_all (w # ws) h = destroy_all ws (wrapper_dtor w h)"

fun end_chain :: "sgr_ostream_wrapper \<times> sgr_ostream_wrapper list \<times> sinks \<Rightarrow> sinks" where
  "end_chain (w, olds, h) = destroy_all (w # olds) h"

text \<open>A whole chain on a plain sink: it starts from the wrapper constructed on \<open>out\<close>.\<close>

definition run_chain :: "streambuf \<Rightarrow> chain_op list \<Rightarrow> sinks \<Rightarrow> sinks" where
  "run_chain out ops h = end_chain (chain ops (wrapper_of_ostream out) [] h)"

fun chain_bytes :: "chain_op \<Rightarrow> string" where
  "chain_bytes Handoff = []"
| "chain_bytes DestroySource = []"
| "chain_bytes (Put t) = t"
| "chain_bytes (PutSgr c) = toString c"

section \<open>The earlier session: class \<^verbatim>\<open>sgr_ostream\<close>\<close>

text \<open>
  The earlier revision derives the session from \<^verbatim>\<open>std::ostream\<close> and keeps a flag
  \<^verbatim>\<open>dead\<close>. Its tokens, \<^verbatim>\<open>toString\<close> and \<^verbatim>\<open>reset\<close> are those above. A function that
  returns \<^verbatim>\<open>sgr_ostream(...)\<close> constructs its result in place (the copy is elided).
\<close>

record sgr_ostream =
  rdbuf :: streambuf
  dead :: bool

text \<open>\<^verbatim>\<open>sgr_ostream(std::ostream & stream, const sgr & sgr)\<close>.\<close>

definition sgr_ostream_ctor :: "streambuf \<Rightarrow> sgr \<Rightarrow> sinks \<Rightarrow> sgr_ostream \<times> sinks" where
  "sgr_ostream_ctor strm c h = (\<lparr>rdbuf = strm, dead = False\<rparr>, sputn strm (toString c) h)"

definition sgr_ostream_kill :: "sgr_ostream \<Rightarrow> sinks \<Rightarrow> sgr_ostream \<times> sinks" where
  "sgr_ostream_kill this h =
     (if \<not> dead this
      then (this\<lparr>dead := True\<rparr>, sputn (rdbuf this) (toString reset) h)
      else (this, h))"

definition sgr_ostream_dtor :: "sgr_ostream \<Rightarrow> sinks \<Rightarrow> sinks" where
  "sgr_ostream_dtor this h = snd (sgr_ostream_kill this h)"

text \<open>
  The member \<^verbatim>\<open>sgr_ostream operator<<(const sgr & c)\<close>: \<^verbatim>\<open>this->kill(); return
  sgr_ostream(*this, c);\<close>. The result is the new session, the session written to as
  the call leaves it, and the sinks.
\<close>

definition sgr_ostream_insert_sgr ::
    "sgr_ostream \<Rightarrow> sgr \<Rightarrow> sinks \<Rightarrow> sgr_ostream \<times> sgr_ostream \<times> sinks" where
  "sgr_ostream_insert_sgr this c h =
     (let (this, h) = sgr_ostream_kill this h;
          (result, h) = sgr_ostream_ctor (rdbuf this) c h
      in (result, this, h))"

text \<open>The free function \<^verbatim>\<open>operator<<(std::ostream & out, const sgr & c)\<close> of that revision.\<close>

definition ostream_insert_sgr_ostream :: "streambuf \<Rightarrow> sgr \<Rightarrow> sinks \<Rightarrow> sgr_ostream \<times> sinks" where
  "ostream_insert_sgr_ostream out c h = sgr_ostream_ctor out c h"

fun sgr_ostream_kill_times :: "nat \<Rightarrow> sgr_ostream \<Rightarrow> sinks \<Rightarrow> sgr_ostream \<times> sinks" where
  "sgr_ostream_kill_times 0 this h = (this, h)"
| "sgr_ostream_kill_times (Suc n) this h =
     (let (this, h) = sgr_ostream_kill this h in sgr_ostream_kill_times n this h)"

text \<open>
  The statement \<^verbatim>\<open>out << a << b;\<close> in that revision: two temporaries, destroyed at the end
  of the statement, the later one first.
\<close>

definition stmt_sgr_sgr_ostream :: "streambuf \<Rightarrow> sgr \<Rightarrow> sgr \<Rightarrow> sinks \<Rightarrow> sinks" where
  "stmt_sgr_sgr_ostream out a b h =
     (let (s1, h) = ostream_insert_sgr_ostream out a h;
          (s2, s1, h) = sgr_ostream_insert_sgr s1 b h;
          h = sgr_ostream_dtor s2 h
      in sgr_ostream_dtor s1 h)"

section \<open>Facts about the decimal text\<close>

lemma digits_of_small: "n < 10 \<Longrightarrow> digits_of n = [digit_char n]"
  by (subst digits_of.simps) simp

lemma digits_of_big:
  "\<not> n < 10 \<Longrightarrow> digits_of n = digits_of (n div 10) @ [digit_char (n mod 10)]"
  by (subst digits_of.simps) simp

lemma to_string_0: "to_string 0 = ''0''"
  by code_simp

lemma to_string_1: "to_string 1 = ''1''"
  by code_simp

lemma to_string_4: "to_string 4 = ''4''"
  by code_simp

lemma to_string_255: "to_string 255 = ''255''"
  by code_simp

lemma digit_char_table: "map digit_char [0..<10] = ''0123456789''"
  by code_simp

lemma digit_char_nth: "d < 10 \<Longrightarrow> digit_char d = ''0123456789'' ! d"
proof -
  assume d: "d < 10"
  then have "map digit_char [0..<10] ! d = digit_char d"
    by (simp del: upt_Suc)
  then show ?thesis
    by (simp only: digit_char_table)
qed

lemma digit_char_in: "d < 10 \<Longrightarrow> digit_char d \<in> set ''0123456789''"
proof -
  assume d: "d < 10"
  then have "''0123456789'' ! d \<in> set ''0123456789''"
    by (intro nth_mem) simp
  with d show ?thesis
    by (simp only: digit_char_nth)
qed

lemma digit_val_digit_char: "d < 10 \<Longrightarrow> digit_val (digit_char d) = d"
  by (simp add: digit_val_def digit_char_def)

lemma decimal_value_snoc: "decimal_value (s @ [c]) = 10 * decimal_value s + digit_val c"
  by (simp add: decimal_value_def)

lemma decimal_value_digits_of: "decimal_value (digits_of n) = n"
proof (induction n rule: digits_of.induct)
  case (1 n)
  show ?case
  proof (cases "n < 10")
    case True
    then show ?thesis
      by (simp add: digits_of_small decimal_value_def digit_val_digit_char)
  next
    case False
    then have "decimal_value (digits_of n) = 10 * (n div 10) + n mod 10"
      using "1.IH" by (simp add: digits_of_big decimal_value_snoc digit_val_digit_char)
    then show ?thesis by simp
  qed
qed

lemma digits_of_charset: "set (digits_of n) \<subseteq> set ''0123456789''"
proof (induction n rule: digits_of.induct)
  case (1 n)
  show ?case
  proof (cases "n < 10")
    case True
    then show ?thesis
      using digit_char_in [of n] by (simp add: digits_of_small)
  next
    case False
    have "n mod 10 < 10" by simp
    then have "digit_char (n mod 10) \<in> set ''0123456789''"
      by (rule digit_char_in)
    with False "1.IH" show ?thesis
      by (simp add: digits_of_big)
  qed
qed

lemma digits_of_nonempty: "digits_of n \<noteq> []"
  by (cases "n < 10") (simp_all add: digits_of_small digits_of_big)

lemma digits_of_leading: "(hd (digits_of n) = CHR ''0'') = (n = 0)"
proof (induction n rule: digits_of.induct)
  case (1 n)
  show ?case
  proof (cases "n < 10")
    case True
    have "digit_char n = CHR ''0'' \<Longrightarrow> n = 0"
    proof -
      assume "digit_char n = CHR ''0''"
      then have "digit_val (digit_char n) = digit_val (CHR ''0'')" by simp
      with True show "n = 0" by (simp add: digit_val_digit_char) (simp add: digit_val_def)
    qed
    moreover have "digit_char 0 = CHR ''0''" by code_simp
    ultimately show ?thesis using True by (auto simp add: digits_of_small)
  next
    case False
    then have "n div 10 \<noteq> 0" by simp
    with False "1.IH" show ?thesis
      by (simp add: digits_of_big digits_of_nonempty)
  qed
qed

lemma to_string_nonneg: "0 \<le> i \<Longrightarrow> to_string i = digits_of (nat i)"
  by (simp add: to_string_def)

lemma decimal_value_to_string: "0 \<le> i \<Longrightarrow> decimal_value (to_string i) = nat i"
  by (simp add: to_string_nonneg decimal_value_digits_of)

lemma to_string_charset: "0 \<le> i \<Longrightarrow> set (to_string i) \<subseteq> set ''0123456789''"
  using digits_of_charset [of "nat i"] by (simp only: to_string_nonneg)

section \<open>Tokens\<close>

lemma toString_reset: "toString reset = CHR 0x1B # ''[0m''"
  by (simp add: toString_def reset_def sgr_of_code_def to_string_0 escape_def terminator_def)

lemma toString_bold: "toString bold = CHR 0x1B # ''[1m''"
  by (simp add: toString_def bold_def sgr_of_code_def to_string_1 escape_def terminator_def)

lemma toString_red_fg: "toString (color_fg RED) = CHR 0x1B # ''[31m''"
  by code_simp

lemma toString_blue_bg: "toString (color_bg BLUE) = CHR 0x1B # ''[44m''"
  by code_simp

lemma ANSIColor_int_nonneg: "0 \<le> ANSIColor_int c"
  by (cases c) simp_all

lemma normal_payloads:
  "map (\<lambda>c. (str (color_fg c), str (color_bg c)))
      [BLACK, RED, GREEN, YELLOW, BLUE, MAGENTA, CYAN, WHITE] =
    [(''30'', ''40''), (''31'', ''41''), (''32'', ''42''), (''33'', ''43''),
     (''34'', ''44''), (''35'', ''45''), (''36'', ''46''), (''37'', ''47'')]"
  by code_simp

lemma bright_payloads:
  "map (\<lambda>c. (str (color_fg c), str (color_bg c)))
      [BRIGHT_BLACK, BRIGHT_RED, BRIGHT_GREEN, BRIGHT_YELLOW,
       BRIGHT_BLUE, BRIGHT_MAGENTA, BRIGHT_CYAN, BRIGHT_WHITE] =
    [(''90'', ''100''), (''91'', ''101''), (''92'', ''102''), (''93'', ''103''),
     (''94'', ''104''), (''95'', ''105''), (''96'', ''106''), (''97'', ''107'')]"
  by code_simp

text \<open>
  C7. \<^verbatim>\<open>a + b\<close> is the token whose payload is the payload of \<^verbatim>\<open>a\<close>, a semicolon, the payload
  of \<^verbatim>\<open>b\<close>, in that order; \<^verbatim>\<open>+\<close> is associative; \<^verbatim>\<open>(bold + underline).toString()\<close> is
  ESC [ 1 ; 4 m; and \<^verbatim>\<open>a , b\<close> is the same token as \<^verbatim>\<open>a + b\<close>.
\<close>

theorem combine_payload_assoc:
  "str (sgr_plus a b) = str a @ '';'' @ str b
   \<and> sgr_plus (sgr_plus a b) c = sgr_plus a (sgr_plus b c)
   \<and> toString (sgr_plus bold underline) = [CHR 0x1B] @ ''[1;4m''
   \<and> sgr_comma a b = sgr_plus a b"
  by (simp add: sgr_plus_def sgr_comma_def toString_def bold_def underline_def
      sgr_of_code_def to_string_1 to_string_4 escape_def terminator_def)

text \<open>
  C5. When at least one of \<open>r\<close>, \<open>g\<close>, \<open>b\<close> lies outside 0..255, the 24-bit colour
  constructor throws \<^verbatim>\<open>invalid_color_component\<close>, for the foreground and for the
  background factory: the result is the exception and no token.
\<close>

theorem rgb_out_of_range_throws:
  "r < 0 \<or> 255 < r \<or> g < 0 \<or> 255 < g \<or> b < 0 \<or> 255 < b \<Longrightarrow>
     color_rgb r g b foreground = Inl invalid_color_component
     \<and> color_fg_rgb r g b = Inl invalid_color_component
     \<and> color_bg_rgb r g b = Inl invalid_color_component"
  by (auto simp add: color_rgb_def color_fg_rgb_def color_bg_rgb_def verifyColorComponent_def
      Let_def)

theorem rgb_out_of_range_throws_witness:
  "color_fg_rgb 256 0 0 = Inl invalid_color_component
   \<and> color_bg_rgb 0 (- 1) 255 = Inl invalid_color_component"
  using rgb_out_of_range_throws [of 256 0 0 True] rgb_out_of_range_throws [of 0 "- 1" 255 True]
  by simp

text \<open>
  C6. For \<open>r\<close>, \<open>g\<close>, \<open>b\<close> in 0..255 the foreground factory returns a token whose
  \<^verbatim>\<open>toString\<close> is ESC [ 38;2; followed by the decimal texts of \<open>r\<close>, \<open>g\<close>, \<open>b\<close>
  separated by semicolons and the final m; the background factory does the same with
  48;2;. The decimal texts consist of digits only and denote \<open>r\<close>, \<open>g\<close> and \<open>b\<close>.
\<close>

theorem rgb_in_range_renders:
  "0 \<le> r \<and> r \<le> 255 \<and> 0 \<le> g \<and> g \<le> 255 \<and> 0 \<le> b \<and> b \<le> 255 \<Longrightarrow>
     (\<exists>t. color_fg_rgb r g b = Inr t \<and> toString t =
          CHR 0x1B # ''[38;2;'' @ to_string r @ '';'' @ to_string g @ '';'' @ to_string b @ ''m'')
     \<and> (\<exists>t. color_bg_rgb r g b = Inr t \<and> toString t =
          CHR 0x1B # ''[48;2;'' @ to_string r @ '';'' @ to_string g @ '';'' @ to_string b @ ''m'')
     \<and> decimal_value (to_string r) = nat r
     \<and> decimal_value (to_string g) = nat g
     \<and> decimal_value (to_string b) = nat b
     \<and> set (to_string r @ to_string g @ to_string b) \<subseteq> set ''0123456789''"
proof -
  assume range: "0 \<le> r \<and> r \<le> 255 \<and> 0 \<le> g \<and> g \<le> 255 \<and> 0 \<le> b \<and> b \<le> 255"
  then have ok: "verifyColorComponent r" "verifyColorComponent g" "verifyColorComponent b"
    by (simp_all add: verifyColorComponent_def)
  have fg: "color_fg_rgb r g b =
      Inr \<lparr>str = ''38;2;'' @ to_string r @ '';'' @ to_string g @ '';'' @ to_string b\<rparr>"
    using ok by (simp add: color_fg_rgb_def color_rgb_def)
  have bg: "color_bg_rgb r g b =
      Inr \<lparr>str = ''48;2;'' @ to_string r @ '';'' @ to_string g @ '';'' @ to_string b\<rparr>"
    using ok by (simp add: color_bg_rgb_def color_rgb_def)
  have digits: "set (to_string r) \<subseteq> set ''0123456789''"
    "set (to_string g) \<subseteq> set ''0123456789''" "set (to_string b) \<subseteq> set ''0123456789''"
    using range by (simp_all only: to_string_charset)
  have vals: "decimal_value (to_string r) = nat r" "decimal_value (to_string g) = nat g"
    "decimal_value (to_string b) = nat b"
    using range by (simp_all only: decimal_value_to_string)
  show ?thesis
    using digits by (simp add: fg bg vals toString_def escape_def terminator_def)
qed

theorem rgb_in_range_renders_witness:
  "(\<exists>t. color_fg_rgb 255 0 0 = Inr t \<and> toString t = CHR 0x1B # ''[38;2;255;0;0m'')
   \<and> (\<exists>t. color_bg_rgb 255 0 0 = Inr t \<and> toString t = CHR 0x1B # ''[48;2;255;0;0m'')"
  using rgb_in_range_renders [of 255 0 0] by (simp add: to_string_255 to_string_0)

text \<open>
  C8. For each of the 16 colours the number in the background payload is the number in
  the foreground payload plus 10: the normal colours give 30..37 and 40..47, the bright
  colours 90..97 and 100..107. The classes \<^verbatim>\<open>FGColor\<close> and \<^verbatim>\<open>BGColor\<close> of the earliest
  header hold the same escape strings.
\<close>

theorem background_is_foreground_plus_10:
  "decimal_value (str (color_fg c)) = nat (ANSIColor_int c)
   \<and> decimal_value (str (color_bg c)) = decimal_value (str (color_fg c)) + 10
   \<and> map (\<lambda>c. (str (color_fg c), str (color_bg c)))
        [BLACK, RED, GREEN, YELLOW, BLUE, MAGENTA, CYAN, WHITE] =
      [(''30'', ''40''), (''31'', ''41''), (''32'', ''42''), (''33'', ''43''),
       (''34'', ''44''), (''35'', ''45''), (''36'', ''46''), (''37'', ''47'')]
   \<and> map (\<lambda>c. (str (color_fg c), str (color_bg c)))
        [BRIGHT_BLACK, BRIGHT_RED, BRIGHT_GREEN, BRIGHT_YELLOW,
         BRIGHT_BLUE, BRIGHT_MAGENTA, BRIGHT_CYAN, BRIGHT_WHITE] =
      [(''90'', ''100''), (''91'', ''101''), (''92'', ''102''), (''93'', ''103''),
       (''94'', ''104''), (''95'', ''105''), (''96'', ''106''), (''97'', ''107'')]
   \<and> SGR_str (FGColor c) = toString (color_fg c)
   \<and> SGR_str (BGColor c) = toString (color_bg c)"
proof -
  have nonneg: "0 \<le> ANSIColor_int c" by (rule ANSIColor_int_nonneg)
  then have fg: "decimal_value (str (color_fg c)) = nat (ANSIColor_int c)"
    by (simp add: color_fg_def color_ansi_def decimal_value_to_string)
  from nonneg have "decimal_value (str (color_bg c)) = nat (ANSIColor_int c + 10)"
    by (simp add: color_bg_def color_ansi_def decimal_value_to_string)
  with nonneg fg have bg: "decimal_value (str (color_bg c)) = decimal_value (str (color_fg c)) + 10"
    by simp
  have old: "SGR_str (FGColor c) = toString (color_fg c)"
    "SGR_str (BGColor c) = toString (color_bg c)"
    by (simp_all add: FGColor_def BGColor_def SGR_of_string_def toString_def color_fg_def
        color_bg_def color_ansi_def terminator_def)
  show ?thesis
    using fg bg old normal_payloads bright_payloads by simp
qed

theorem background_is_foreground_plus_10_witness:
  "decimal_value (str (color_fg RED)) = 31 \<and> decimal_value (str (color_bg RED)) = 41
   \<and> decimal_value (str (color_fg BRIGHT_WHITE)) = 97
   \<and> decimal_value (str (color_bg BRIGHT_WHITE)) = 107"
  using background_is_foreground_plus_10 [of RED] background_is_foreground_plus_10 [of BRIGHT_WHITE]
  by (simp add: decimal_value_def digit_val_def)

section \<open>Sessions\<close>

lemma sputn_sputn: "sputn b t (sputn b s h) = sputn b (s @ t) h"
  by (simp add: sputn_def)

lemma sputn_Nil: "sputn b [] h = h"
  by (simp add: sputn_def)

lemma wrapper_move_eq: "wrapper_move w = (w, w\<lparr>shouldReset := False\<rparr>)"
  by (simp add: wrapper_move_def)

lemma wrapper_dtor_eq:
  "wrapper_dtor w h = (if shouldReset w then sputn (stream w) (toString reset) h else h)"
  by (simp add: wrapper_dtor_def kill_def insert_T_def)

lemma wrapper_dtor_moved_from: "wrapper_dtor (w\<lparr>shouldReset := False\<rparr>) h = h"
  by (simp add: wrapper_dtor_eq)

lemma ostream_insert_sgr_eq:
  "ostream_insert_sgr out c h =
     (\<lparr>stream = out, shouldReset = True\<rparr>, h(out := h out @ toString c))"
  by (simp add: ostream_insert_sgr_def wrapper_of_ostream_def insert_sgr_def wrapper_move_def
      wrapper_dtor_def kill_def sputn_def)

lemma stmt_sgr_eq: "stmt_sgr out c h = h(out := h out @ toString c @ toString reset)"
  by (simp add: stmt_sgr_def ostream_insert_sgr_eq wrapper_dtor_eq sputn_def)

lemma stmt_sgr_text_eq:
  "stmt_sgr_text out c t h = h(out := h out @ toString c @ t @ toString reset)"
  by (simp add: stmt_sgr_text_def ostream_insert_sgr_eq insert_T_def wrapper_dtor_def kill_def
      sputn_def)

lemma stmt_sgr_sgr_eq:
  "stmt_sgr_sgr out a b h = h(out := h out @ toString a @ toString b @ toString reset)"
  by (simp add: stmt_sgr_sgr_def ostream_insert_sgr_eq insert_sgr_def wrapper_dtor_eq sputn_def)

lemma stmt_sgr_sgr_ostream_eq:
  "stmt_sgr_sgr_ostream out a b h =
     h(out := h out @ toString a @ toString reset @ toString b @ toString reset)"
  by (simp add: stmt_sgr_sgr_ostream_def ostream_insert_sgr_ostream_def sgr_ostream_ctor_def
      sgr_ostream_insert_sgr_def sgr_ostream_kill_def sgr_ostream_dtor_def sputn_def)

lemma kill_times_eq:
  "kill_times n w h =
     (if n = 0 then (w, h)
      else (w\<lparr>shouldReset := False\<rparr>,
            if shouldReset w then sputn (stream w) (toString reset) h else h))"
proof (induction n arbitrary: w h)
  case 0
  show ?case by simp
next
  case (Suc n)
  show ?case
    by (cases "shouldReset w") (simp_all add: Suc kill_def insert_T_def)
qed

lemma sgr_ostream_kill_times_eq:
  "sgr_ostream_kill_times n s h =
     (if n = 0 then (s, h)
      else (s\<lparr>dead := True\<rparr>,
            if dead s then h else sputn (rdbuf s) (toString reset) h))"
proof (induction n arbitrary: s h)
  case 0
  show ?case by simp
next
  case (Suc n)
  show ?case
    by (cases "dead s") (simp_all add: Suc sgr_ostream_kill_def)
qed

lemma chain_destroy:
  "list_all (\<lambda>old. \<not> shouldReset old) olds \<Longrightarrow>
     end_chain (chain ops w olds h) =
       wrapper_dtor w (sputn (stream w) (concat (map chain_bytes ops)) h)"
proof (induction ops w olds h rule: chain.induct)
  case (1 w olds h)
  then have "destroy_all olds h' = h'" for h'
    by (induction olds arbitrary: h') (simp_all add: wrapper_dtor_eq)
  then show ?case
    by (simp add: sputn_Nil)
next
  case (2 ops w olds h)
  then show ?case
    by (simp add: wrapper_move_eq)
next
  case (3 ops w h)
  then show ?case by simp
next
  case (4 ops w old olds h)
  then show ?case
    by (simp add: wrapper_dtor_eq)
next
  case (5 t ops w olds h)
  then show ?case
    by (simp add: insert_T_def sputn_sputn)
next
  case (6 c ops w olds h)
  then show ?case
    by (simp add: insert_sgr_def sputn_sputn)
qed

lemma chain_free_inserter:
  "chain [PutSgr c, Handoff, DestroySource] (wrapper_of_ostream out) [] h =
     (fst (ostream_insert_sgr out c h), [], snd (ostream_insert_sgr out c h))"
  by (simp add: ostream_insert_sgr_eq insert_sgr_def wrapper_move_eq wrapper_dtor_eq
      wrapper_of_ostream_def sputn_def)

lemma run_chain_eq:
  "run_chain out ops h = h(out := h out @ concat (map chain_bytes ops) @ toString reset)"
  by (simp add: run_chain_def chain_destroy wrapper_dtor_eq wrapper_of_ostream_def sputn_def)

text \<open>
  C1. For every plain sink \<open>out\<close>, whatever it holds already, the statement
  \<^verbatim>\<open>out << bold << "Bold string";\<close> (the session ends with the statement, no explicit
  reset) appends exactly ESC [ 1 m, the text, and one ESC [ 0 m. The string the test
  \<^verbatim>\<open>test_simple\<close> reads back is exactly that byte sequence.
\<close>

theorem bold_string_bytes:
  "stmt_sgr_text out bold ''Bold string'' h =
     h(out := h out @ CHR 0x1B # ''[1mBold string'' @ CHR 0x1B # ''[0m'')
   \<and> test_simple_target = CHR 0x1B # ''[1mBold string'' @ CHR 0x1B # ''[0m''"
  by (simp add: test_simple_target_def stmt_sgr_text_eq toString_bold toString_reset
      no_output_def)

theorem bold_string_bytes_witness:
  "stmt_sgr_text 0 bold ''Bold string'' no_output 0 =
     CHR 0x1B # ''[1mBold string'' @ CHR 0x1B # ''[0m''"
  using bold_string_bytes [of 0 no_output] by (simp add: no_output_def)

text \<open>
  C2. Calling \<^verbatim>\<open>kill\<close> any number of times on one session emits the reset string at
  most once: after \<open>n\<close> calls the sink has received one reset string if the session was
  armed and \<open>n > 0\<close>, and nothing otherwise; the flag is cleared by the first call, and
  \<^verbatim>\<open>kill\<close> on a session that has been killed changes nothing. The same holds for the
  \<^verbatim>\<open>dead\<close> flag of the earlier \<^verbatim>\<open>sgr_ostream\<close>.
\<close>

theorem finalize_at_most_one_reset:
  "snd (kill_times n w h) =
     (if shouldReset w \<and> 0 < n then sputn (stream w) (toString reset) h else h)
   \<and> shouldReset (fst (kill_times n w h)) = (shouldReset w \<and> n = 0)
   \<and> kill (fst (kill w h)) h' = (fst (kill w h), h')
   \<and> snd (sgr_ostream_kill_times n s h) =
     (if \<not> dead s \<and> 0 < n then sputn (rdbuf s) (toString reset) h else h)
   \<and> dead (fst (sgr_ostream_kill_times n s h)) = (dead s \<or> 0 < n)
   \<and> sgr_ostream_kill (fst (sgr_ostream_kill s h)) h' = (fst (sgr_ostream_kill s h), h')"
  by (simp add: kill_times_eq sgr_ostream_kill_times_eq kill_def insert_T_def
      sgr_ostream_kill_def)

theorem finalize_at_most_one_reset_witness:
  "snd (kill_times 3 (wrapper_of_ostream 0) no_output) 0 = CHR 0x1B # ''[0m''
   \<and> snd (sgr_ostream_kill_times 3 \<lparr>rdbuf = 0, dead = False\<rparr> no_output) 0 = CHR 0x1B # ''[0m''"
  using finalize_at_most_one_reset [of 3 "wrapper_of_ostream 0" no_output no_output
      "\<lparr>rdbuf = 0, dead = False\<rparr>"]
  by (simp add: wrapper_of_ostream_def no_output_def sputn_def toString_reset)

text \<open>
  C3, as stated, fails. The claim says that writing the reset token leaves the session
  idle, so that no second ESC [ 0 m follows when the session ends. In the header the
  constructor sets \<^verbatim>\<open>shouldReset\<close> to true for every token and the inserter of a token
  never touches the flag: after \<^verbatim>\<open>out << reset;\<close> the sink holds two reset sequences,
  and after \<^verbatim>\<open>out << bold << reset;\<close> it holds ESC [ 1 m and two reset sequences.
\<close>

theorem explicit_reset_counterexample:
  "shouldReset (fst (ostream_insert_sgr 0 reset no_output))
   \<and> stmt_sgr 0 reset no_output 0 = CHR 0x1B # ''[0m'' @ CHR 0x1B # ''[0m''
   \<and> shouldReset (fst (insert_sgr (fst (ostream_insert_sgr 0 bold no_output)) reset no_output))
   \<and> stmt_sgr_sgr 0 bold reset no_output 0 =
       CHR 0x1B # ''[1m'' @ CHR 0x1B # ''[0m'' @ CHR 0x1B # ''[0m''"
  by (simp add: ostream_insert_sgr_eq stmt_sgr_eq stmt_sgr_sgr_eq insert_sgr_def no_output_def
      toString_reset toString_bold)

text \<open>
  C3, amended. A session created by writing any token to a plain sink, the reset token
  included, starts armed; writing a token (the reset token included) to a session
  leaves the session as it was; so when the session ends after an explicit reset, the
  destructor emits ESC [ 0 m once more and the sink receives two reset sequences in a
  row.
\<close>

theorem explicit_reset_keeps_obligation:
  "ostream_insert_sgr out c h = (wrapper_of_ostream out, sputn out (toString c) h)
   \<and> fst (insert_sgr w c h) = w
   \<and> stmt_sgr out reset h = h(out := h out @ toString reset @ toString reset)
   \<and> stmt_sgr_sgr out a reset h =
       h(out := h out @ toString a @ toString reset @ toString reset)"
  by (simp add: ostream_insert_sgr_eq wrapper_of_ostream_def sputn_def insert_sgr_def
      stmt_sgr_eq stmt_sgr_sgr_eq)

theorem explicit_reset_keeps_obligation_witness:
  "shouldReset (fst (ostream_insert_sgr 0 reset no_output))
   \<and> stmt_sgr 0 reset no_output 0 = CHR 0x1B # ''[0m'' @ CHR 0x1B # ''[0m''"
  using explicit_reset_keeps_obligation [of 0 reset no_output "wrapper_of_ostream 0" bold]
  by (simp add: wrapper_of_ostream_def no_output_def toString_reset)

text \<open>
  C4. A hand-off (the move constructor) gives the new wrapper the flag and the buffer of
  the old one and clears the flag of the old one: destroying the wrapper moved from
  writes nothing, at whatever moment, and destroying the new wrapper does what destroying
  the old one would have done. Along any chain of writes and hand-offs that starts from
  a wrapper constructed on a plain sink, where a wrapper moved from is destroyed in the
  middle of the chain or at its end, the sink receives the bytes written, in order,
  followed by exactly one reset string: none is emitted in the middle of the chain and
  none is emitted twice. The free inserter of a token into a plain stream is the chain
  that inserts the token, hands off and destroys its local.
\<close>

theorem handoff_moves_obligation:
  "shouldReset (fst (wrapper_move w)) = shouldReset w
   \<and> stream (fst (wrapper_move w)) = stream w
   \<and> \<not> shouldReset (snd (wrapper_move w))
   \<and> wrapper_dtor (snd (wrapper_move w)) h = h
   \<and> wrapper_dtor (fst (wrapper_move w)) h = wrapper_dtor w h
   \<and> run_chain out ops h = h(out := h out @ concat (map chain_bytes ops) @ toString reset)
   \<and> chain [PutSgr c, Handoff, DestroySource] (wrapper_of_ostream out) [] h =
       (fst (ostream_insert_sgr out c h), [], snd (ostream_insert_sgr out c h))"
proof -
  have moved: "wrapper_move w = (w, w\<lparr>shouldReset := False\<rparr>)"
    by (rule wrapper_move_eq)
  have source_silent: "wrapper_dtor (w\<lparr>shouldReset := False\<rparr>) h = h"
    by (rule wrapper_dtor_moved_from)
  have whole: "run_chain out ops h =
      h(out := h out @ concat (map chain_bytes ops) @ toString reset)"
    by (rule run_chain_eq)
  show ?thesis
    using source_silent whole chain_free_inserter [of c out h] by (simp add: moved)
qed

theorem handoff_moves_obligation_witness:
  "run_chain 0 [PutSgr bold, Handoff, DestroySource, Put ''x'', Handoff, Handoff] no_output 0 =
     CHR 0x1B # ''[1mx'' @ CHR 0x1B # ''[0m''
   \<and> run_chain 0 [Handoff, Handoff] no_output 0 = CHR 0x1B # ''[0m''"
  using handoff_moves_obligation [of "wrapper_of_ostream 0" no_output 0
      "[PutSgr bold, Handoff, DestroySource, Put ''x'', Handoff, Handoff]"]
    handoff_moves_obligation [of "wrapper_of_ostream 0" no_output 0 "[Handoff, Handoff]"]
  by (simp add: no_output_def toString_bold toString_reset)

text \<open>
  C9. The two revisions of the session differ on \<^verbatim>\<open>out << a << b;\<close>. With
  \<^verbatim>\<open>sgr_ostream\<close> the sink receives the escape string of \<open>a\<close>, a reset, the escape
  string of \<open>b\<close>, and a reset; with \<^verbatim>\<open>sgr_ostream_wrapper\<close> it receives the escape
  string of \<open>a\<close>, at once that of \<open>b\<close>, and one reset. The two results differ for every
  pair of tokens, so in particular for the red foreground and the blue background.
\<close>

theorem revisions_differ_on_two_tokens:
  "stmt_sgr_sgr_ostream out a b h =
     h(out := h out @ toString a @ toString reset @ toString b @ toString reset)
   \<and> stmt_sgr_sgr out a b h = h(out := h out @ toString a @ toString b @ toString reset)
   \<and> stmt_sgr_sgr_ostream out a b h \<noteq> stmt_sgr_sgr out a b h"
proof -
  have "length (stmt_sgr_sgr_ostream out a b h out) \<noteq> length (stmt_sgr_sgr out a b h out)"
    by (simp add: stmt_sgr_sgr_ostream_eq stmt_sgr_sgr_eq toString_reset)
  then have "stmt_sgr_sgr_ostream out a b h \<noteq> stmt_sgr_sgr out a b h"
    by auto
  then show ?thesis
    by (simp add: stmt_sgr_sgr_ostream_eq stmt_sgr_sgr_eq)
qed

theorem revisions_differ_on_two_tokens_witness:
  "stmt_sgr_sgr_ostream 0 (color_fg RED) (color_bg BLUE) no_output 0 =
     CHR 0x1B # ''[31m'' @ CHR 0x1B # ''[0m'' @ CHR 0x1B # ''[44m'' @ CHR 0x1B # ''[0m''
   \<and> stmt_sgr_sgr 0 (color_fg RED) (color_bg BLUE) no_output 0 =
     CHR 0x1B # ''[31m'' @ CHR 0x1B # ''[44m'' @ CHR 0x1B # ''[0m''"
  using revisions_differ_on_two_tokens [of 0 "color_fg RED" "color_bg BLUE" no_output]
  by (simp add: no_output_def toString_red_fg toString_blue_bg toString_reset)

text \<open>
  C10. The generic inserter, applied to a value that prints as the text \<open>t\<close>, appends
  exactly \<open>t\<close> to the buffer of the session and leaves every other buffer alone; it
  returns the session it was applied to, with the same buffer and the same
  \<^verbatim>\<open>shouldReset\<close> flag, so that ending the session afterwards does what it would have
  done before.
\<close>

theorem generic_insert_frame:
  "insert_T w t h = (w, h(stream w := h (stream w) @ t))
   \<and> shouldReset (fst (insert_T w t h)) = shouldReset w
   \<and> stream (fst (insert_T w t h)) = stream w
   \<and> wrapper_dtor (fst (insert_T w t h)) h' = wrapper_dtor w h'"
proof -
  have same: "fst (insert_T w t h) = w"
    by (simp add: insert_T_def)
  have appended: "snd (insert_T w t h) = h(stream w := h (stream w) @ t)"
    by (simp add: insert_T_def sputn_def)
  from same appended have "insert_T w t h = (w, h(stream w := h (stream w) @ t))"
    by (simp add: prod_eq_iff)
  with same show ?thesis by simp
qed

theorem generic_insert_frame_witness:
  "insert_T (wrapper_of_ostream 0) ''text'' no_output =
     (wrapper_of_ostream 0, no_output(0 := ''text''))"
  using generic_insert_frame [of "wrapper_of_ostream 0" "''text''" no_output no_output]
  by (simp add: wrapper_of_ostream_def no_output_def)

end
